theory Spec2Isabelle
  imports Main
begin

section \<open>Strings and numbers as the JavaScript renders them\<close>

text \<open>
  A JavaScript string is a \<^typ>\<open>string\<close>: one \<^typ>\<open>char\<close> per code unit, so that
  \<^term>\<open>length s\<close> is \<open>s.length\<close> and \<^term>\<open>take n (drop i s)\<close> is \<open>s.slice(i, i + n)\<close>.
  Every character the code singles out is ASCII; all other code units are treated alike.
  The characters that cannot stand inside a string literal get a name.
\<close>

abbreviation SQUOTE :: char where "SQUOTE \<equiv> CHR 0x27"
abbreviation DQUOTE :: char where "DQUOTE \<equiv> CHR 0x22"
abbreviation BACKSLASH :: char where "BACKSLASH \<equiv> CHR 0x5C"
abbreviation BACKTICK :: char where "BACKTICK \<equiv> CHR 0x60"
abbreviation LF :: char where "LF \<equiv> CHR 0x0A"
abbreviation CR :: char where "CR \<equiv> CHR 0x0D"

text \<open>
  \<open>s.replace(/c/g, r)\<close> for a one-character pattern \<open>c\<close> and a replacement \<open>r\<close> without
  \<open>$\<close>-patterns: every occurrence of \<open>c\<close>, left to right, becomes \<open>r\<close>.
\<close>

definition replace_char :: "char \<Rightarrow> string \<Rightarrow> string \<Rightarrow> string" where
  "replace_char c r s = concat (map (\<lambda>x. if x = c then r else [x]) s)"

text \<open>
  \<open>s.replace(/\r?\n/g, '{ENTER}')\<close>: scanning from the left, a line feed, together with a
  carriage return right before it, becomes the token; a carriage return alone stays.
\<close>

fun replace_newlines :: "string \<Rightarrow> string" where
  "replace_newlines [] = []"
| "replace_newlines [c] = (if c = LF then ''{ENTER}'' else [c])"
| "replace_newlines (c # d # cs) =
     (if c = CR \<and> d = LF then ''{ENTER}'' @ replace_newlines cs
      else if c = LF then ''{ENTER}'' @ replace_newlines (d # cs)
      else c # replace_newlines (d # cs))"

text \<open>\<open>xs.join(sep)\<close>.\<close>

fun join :: "string \<Rightarrow> string list \<Rightarrow> string" where
  "join sep [] = []"
| "join sep [x] = x"
| "join sep (x # y # ys) = x @ sep @ join sep (y # ys)"

text \<open>A number inside a template literal: decimal digits, a minus sign when negative.\<close>

definition digit :: "nat \<Rightarrow> char" where
  "digit d = char_of (48 + d)"

fun show_nat :: "nat \<Rightarrow> string" where
  "show_nat n = (if n < 10 then [digit n] else show_nat (n div 10) @ [digit (n mod 10)])"

declare show_nat.simps [simp del]

definition show_int :: "int \<Rightarrow> string" where
  "show_int i = (if i < 0 then CHR ''-'' # show_nat (nat (- i)) else show_nat (nat i))"


section \<open>The state of the main process\<close>

text \<open>
  The module-level variables of \<open>main.js\<close> (lines 6 to 10 and 80) that the modelled functions
  read or write, and the traces of their side effects.

  A log entry is \<open>{timestamp, level, category, message, data, pid}\<close>; the timestamp and the
  pid are read from the clock and the process and no operation looks at them, so the model
  keeps the four fields the caller passes. \<open>data\<close> is \<open>null\<close> or an object of named strings.

  \<open>mainWindow\<close> says whether the variable holds a window (with its \<open>webContents\<close>).
  \<open>clipboardMonitorInterval\<close> is \<open>null\<close> or a timer handle; \<open>intervals\<close> are the interval
  timers alive in the event loop and \<open>nextHandle\<close> the handle the next \<open>setInterval\<close> returns.
  \<open>sent\<close> are the messages sent to the renderer on the channels \<open>main-process-log\<close> and
  \<open>clipboard-changed\<close>, oldest first; \<open>effects\<close> are the clipboard writes, the pauses and
  the calls of \<open>spawn\<close> and of \<open>exec\<close>, oldest first.
\<close>

type_synonym log_data = "(string \<times> string) list option"

datatype log_entry = LogEntry (level: string) (category: string) (entry_message: string) (data: log_data)

datatype renderer_msg = MainProcessLog log_entry | ClipboardChanged string

datatype effect =
    WriteClipboard string
  | Wait nat
  | Spawn string "string list"
  | Exec string nat

record main_state =
  mainWindow :: bool
  logs :: "log_entry list"
  sent :: "renderer_msg list"
  clipboardMonitorInterval :: "nat option"
  lastClipboardText :: string
  intervals :: "nat list"
  nextHandle :: nat
  effects :: "effect list"

definition initial_state :: main_state where
  "initial_state =
     \<lparr>mainWindow = False, logs = [], sent = [], clipboardMonitorInterval = None,
      lastClipboardText = [], intervals = [], nextHandle = 0, effects = []\<rparr>"

text \<open>
  The objects the paste functions return. A key that is absent (or \<open>undefined\<close>) is \<open>None\<close>;
  \<open>code\<close> can also be present and \<open>null\<close>. \<open>cmd_output\<close> is the key \<open>output\<close> and
  \<open>paste_method\<close> the key \<open>method\<close>.
\<close>

record result =
  success :: bool
  message :: "string option"
  error :: "string option"
  errors :: "string list option"
  cmd_output :: "string option"
  code :: "int option option"
  timeout :: "nat option"
  paste_method :: "string option"

definition obj :: "bool \<Rightarrow> result" where
  "obj s = \<lparr>success = s, message = None, error = None, errors = None, cmd_output = None,
            code = None, timeout = None, paste_method = None\<rparr>"


section \<open>MainProcessLogger\<close>

text \<open>
  \<open>main.js\<close> lines 40 to 78 (the same class stands in the older Windows-only main file,
  \<open>src/unnamed/part_000\<close>, lines 13 to 53): \<open>this.logs.unshift(entry); if (this.logs.length > this.maxLogs)
  this.logs.pop();\<close>, then the entry goes to the console (not modelled) and, when there is
  a window, to the renderer.
\<close>

definition maxLogs :: nat where
  "maxLogs = 200"

definition logger_log :: "string \<Rightarrow> string \<Rightarrow> string \<Rightarrow> log_data \<Rightarrow> main_state \<Rightarrow> main_state" where
  "logger_log lv cat msg d st =
     (let entry = LogEntry lv cat msg d;
          unshifted = entry # logs st;
          kept = (if length unshifted > maxLogs then butlast unshifted else unshifted)
      in st\<lparr>logs := kept,
             sent := (if mainWindow st then sent st @ [MainProcessLog entry] else sent st)\<rparr>)"

definition getLogs :: "main_state \<Rightarrow> log_entry list" where
  "getLogs st = logs st"

text \<open>A sequence of \<open>log\<close> calls, each \<open>(level, category, message, data)\<close>, in call order.\<close>

type_synonym log_call = "string \<times> string \<times> string \<times> log_data"

definition entry_of :: "log_call \<Rightarrow> log_entry" where
  "entry_of c = (case c of (lv, cat, msg, d) \<Rightarrow> LogEntry lv cat msg d)"

fun log_all :: "log_call list \<Rightarrow> main_state \<Rightarrow> main_state" where
  "log_all [] st = st"
| "log_all (c # cs) st = log_all cs (case c of (lv, cat, msg, d) \<Rightarrow> logger_log lv cat msg d st)"


section \<open>Clipboard monitoring\<close>

text \<open>
  \<open>main.js\<close> lines 450 to 489 (the older Windows-only main file, lines 396 to 436, differs in
  the wording of the log messages only). \<open>clipboard.readText()\<close> is an input: \<open>Inr text\<close> when
  it returns, \<open>Inl msg\<close> when it throws an error with that message. \<open>setInterval\<close> makes a
  new timer and returns its handle, \<open>clearInterval\<close> ends the timer of a handle.
\<close>

type_synonym clipboard_read = "string + string"

definition stopClipboardMonitoring :: "main_state \<Rightarrow> main_state" where
  "stopClipboardMonitoring st =
     (case clipboardMonitorInterval st of
        None \<Rightarrow> st
      | Some t \<Rightarrow>
          logger_log ''info'' ''clipboard'' ''Clipboard monitoring stopped'' None
            (st\<lparr>intervals := removeAll t (intervals st), clipboardMonitorInterval := None\<rparr>))"

text \<open>The body of the interval callback, lines 464 to 479.\<close>

definition clipboardTick :: "clipboard_read \<Rightarrow> main_state \<Rightarrow> main_state" where
  "clipboardTick r st =
     (case r of
        Inl msg \<Rightarrow>
          logger_log ''debug'' ''clipboard'' ''Clipboard read error (normal)''
            (Some [(''error'', msg)]) st
      | Inr currentText \<Rightarrow>
          if currentText \<noteq> lastClipboardText st \<and> length currentText > 0 then
            (let previousLength = length (lastClipboardText st);
                 st1 = st\<lparr>lastClipboardText := currentText\<rparr>;
                 st2 = logger_log ''info'' ''clipboard''
                         (''Clipboard changed: '' @ show_nat previousLength @ '' -> ''
                            @ show_nat (length currentText) @ '' chars'') None st1
             in if mainWindow st2
                then st2\<lparr>sent := sent st2 @ [ClipboardChanged currentText]\<rparr>
                else st2)
          else st)"

definition startClipboardMonitoring :: "string \<Rightarrow> clipboard_read \<Rightarrow> main_state \<Rightarrow> main_state" where
  "startClipboardMonitoring platformName r st =
     (let st1 = logger_log ''info'' ''clipboard''
                  (''Starting clipboard monitoring on '' @ platformName) None st;
          st2 = stopClipboardMonitoring st1;
          st3 = (case r of
                   Inr text \<Rightarrow>
                     logger_log ''info'' ''clipboard''
                       (''Initial clipboard content: '' @ show_nat (length text) @ '' chars'') None
                       (st2\<lparr>lastClipboardText := text\<rparr>)
                 | Inl msg \<Rightarrow>
                     (logger_log ''warn'' ''clipboard'' ''Could not read initial clipboard''
                        (Some [(''error'', msg)]) st2)\<lparr>lastClipboardText := []\<rparr>)
      in st3\<lparr>intervals := intervals st3 @ [nextHandle st3],
              clipboardMonitorInterval := Some (nextHandle st3),
              nextHandle := Suc (nextHandle st3)\<rparr>)"

text \<open>
  What happens to these variables in the life of the process. Another component logs
  (\<open>Log\<close>); \<open>createWindow\<close> assigns a window (\<open>WindowCreated\<close>, line 258); the timeout of the
  \<open>dom-ready\<close> handler (lines 306 to 311) calls \<open>mainWindow.show()\<close>, which throws when there
  is no window, and only then \<open>startClipboardMonitoring()\<close> (\<open>DomReady\<close>); the \<open>closed\<close>
  handler (lines 283 and 284) clears the variable and stops the monitor (\<open>WindowClosed\<close>);
  \<open>before-quit\<close> stops it (\<open>BeforeQuit\<close>, line 891); the timer of a handle fires with what the
  clipboard read gives (\<open>IntervalFires\<close>), which runs the callback when that timer is alive.
\<close>

datatype app_event =
    Log log_call
  | WindowCreated
  | DomReady string clipboard_read
  | WindowClosed
  | BeforeQuit
  | IntervalFires nat clipboard_read

fun app_step :: "main_state \<Rightarrow> app_event \<Rightarrow> main_state" where
  "app_step st (Log c) = log_all [c] st"
| "app_step st WindowCreated = st\<lparr>mainWindow := True\<rparr>"
| "app_step st (DomReady platformName r) =
     (if mainWindow st then startClipboardMonitoring platformName r st else st)"
| "app_step st WindowClosed = stopClipboardMonitoring (st\<lparr>mainWindow := False\<rparr>)"
| "app_step st BeforeQuit = stopClipboardMonitoring st"
| "app_step st (IntervalFires t r) =
     (if t \<in> set (intervals st) then clipboardTick r st else st)"

definition app_run :: "app_event list \<Rightarrow> main_state" where
  "app_run evs = foldl app_step initial_state evs"

text \<open>The \<open>clipboard-changed\<close> messages among those sent, oldest first.\<close>

fun clipboard_changes :: "renderer_msg list \<Rightarrow> string list" where
  "clipboard_changes [] = []"
| "clipboard_changes (ClipboardChanged t # ms) = t # clipboard_changes ms"
| "clipboard_changes (MainProcessLog e # ms) = clipboard_changes ms"

text \<open>
  What holds of the timers in every state the process reaches: the variable names the one
  timer alive, a handle still to be given out is not alive, and a timer is alive only
  while there is a window.
\<close>

definition monitor_inv :: "main_state \<Rightarrow> bool" where
  "monitor_inv st =
     (case clipboardMonitorInterval st of
        None \<Rightarrow> intervals st = []
      | Some t \<Rightarrow> intervals st = [t] \<and> t < nextHandle st \<and> mainWindow st)"


section \<open>executeCommand\<close>

text \<open>
  \<open>main.js\<close> lines 492 to 544 (the older Windows-only main file, lines 606 to 658, differs in
  the wording of the log messages only). The function returns a promise at once. Its
  executor logs and calls \<open>spawn\<close> (lines 494 to 496) with no \<open>try\<close> around it: when \<open>spawn\<close>
  throws, which it does at once for a command or an argument it refuses (one holding a NUL
  character, for instance), the promise is rejected with that error and nothing else
  happens. When \<open>spawn\<close> returns a process, what becomes of the promise depends on the
  events the process and the timer deliver afterwards: the timer fires, a chunk arrives on
  standard output or standard error, the process closes with a code (\<open>null\<close> after a
  signal), or it reports an error. What \<open>spawn\<close> does is an input, a \<open>spawn_outcome\<close>.

  The variables of the closure: \<open>stdout_text\<close> and \<open>stderr_text\<close> are \<open>output\<close> and \<open>error\<close>,
  \<open>timer_pending\<close> says that the timeout has neither fired nor been cleared, \<open>killed\<close> that
  \<open>proc.kill()\<close> was called, and \<open>resolved\<close> lists the argument of every call of \<open>resolve\<close>,
  in order (the promise takes the first). A timer that is pending fires in the end, so a
  run is over only when \<open>timer_pending\<close> is false.
\<close>

datatype 'a promise = Pending | Fulfilled 'a | Rejected string

datatype proc_event =
    TimeoutFires
  | StdoutData string
  | StderrData string
  | Close "int option"
  | ProcError string

datatype spawn_outcome = Spawned "proc_event list" | SpawnThrows string

record exec_vars =
  stdout_text :: string
  stderr_text :: string
  completed :: bool
  timer_pending :: bool
  killed :: bool
  resolved :: "result list"

definition show_code :: "int option \<Rightarrow> string" where
  "show_code c = (case c of None \<Rightarrow> ''null'' | Some n \<Rightarrow> show_int n)"

definition executeCommand_begin ::
    "string \<Rightarrow> string list \<Rightarrow> nat \<Rightarrow> string \<Rightarrow> main_state \<Rightarrow> exec_vars \<times> main_state" where
  "executeCommand_begin command args timeoutMs requestId st =
     (let st1 = logger_log ''info'' ''command''
                  (''['' @ requestId @ ''] Executing: '' @ command @ '' ''
                     @ take 100 (join '' '' args)) None st
      in (\<lparr>stdout_text = [], stderr_text = [], completed = False, timer_pending = True,
           killed = False, resolved = []\<rparr>,
          st1\<lparr>effects := effects st1 @ [Spawn command args]\<rparr>))"

fun executeCommand_on ::
    "nat \<Rightarrow> string \<Rightarrow> exec_vars \<times> main_state \<Rightarrow> proc_event \<Rightarrow> exec_vars \<times> main_state" where
  "executeCommand_on timeoutMs requestId (v, st) TimeoutFires =
     (if timer_pending v then
        (if \<not> completed v then
           (v\<lparr>timer_pending := False, completed := True, killed := True,
              resolved := resolved v @
                [(obj False)\<lparr>error := Some ''Command timed out'', timeout := Some timeoutMs\<rparr>]\<rparr>,
            logger_log ''error'' ''command''
              (''['' @ requestId @ ''] Command timed out after '' @ show_nat timeoutMs @ ''ms'')
              None st)
         else (v\<lparr>timer_pending := False\<rparr>, st))
      else (v, st))"
| "executeCommand_on timeoutMs requestId (v, st) (StdoutData d) =
     (v\<lparr>stdout_text := stdout_text v @ d\<rparr>, st)"
| "executeCommand_on timeoutMs requestId (v, st) (StderrData d) =
     (v\<lparr>stderr_text := stderr_text v @ d\<rparr>, st)"
| "executeCommand_on timeoutMs requestId (v, st) (Close c) =
     (if \<not> completed v then
        (v\<lparr>completed := True, timer_pending := False,
           resolved := resolved v @
             [if c = Some 0
              then (obj True)\<lparr>message := Some ''Command executed successfully'',
                     cmd_output := Some (stdout_text v), code := Some c\<rparr>
              else (obj False)\<lparr>error := Some (if stderr_text v \<noteq> [] then stderr_text v
                                                else ''Command failed with code '' @ show_code c),
                     cmd_output := Some (stdout_text v), code := Some c\<rparr>]\<rparr>,
         logger_log (if c = Some 0 then ''success'' else ''error'') ''command''
           (''['' @ requestId @ ''] Command finished with code '' @ show_code c) None st)
      else (v, st))"
| "executeCommand_on timeoutMs requestId (v, st) (ProcError m) =
     (if \<not> completed v then
        (v\<lparr>completed := True, timer_pending := False,
           resolved := resolved v @ [(obj False)\<lparr>error := Some m\<rparr>]\<rparr>,
         logger_log ''error'' ''command'' (''['' @ requestId @ ''] Command error'')
           (Some [(''error'', m)]) st)
      else (v, st))"

definition executeCommand_run ::
    "string \<Rightarrow> string list \<Rightarrow> nat \<Rightarrow> string \<Rightarrow> proc_event list \<Rightarrow> main_state
      \<Rightarrow> exec_vars \<times> main_state" where
  "executeCommand_run command args timeoutMs requestId evs st =
     foldl (executeCommand_on timeoutMs requestId)
       (executeCommand_begin command args timeoutMs requestId st) evs"

definition executeCommand ::
    "string \<Rightarrow> string list \<Rightarrow> nat \<Rightarrow> string \<Rightarrow> spawn_outcome \<Rightarrow> main_state
      \<Rightarrow> result promise \<times> main_state" where
  "executeCommand command args timeoutMs requestId outcome st =
     (case outcome of
        SpawnThrows m \<Rightarrow>
          (Rejected m, snd (executeCommand_begin command args timeoutMs requestId st))
      | Spawned evs \<Rightarrow>
          (case executeCommand_run command args timeoutMs requestId evs st of
             (v, st') \<Rightarrow> (case resolved v of [] \<Rightarrow> Pending | r # rs \<Rightarrow> Fulfilled r, st')))"





section \<open>Batch size of the Windows keystroke simulation\<close>

text \<open>
  \<open>Math.max(1, Math.min(20, Math.floor(200 / delay)))\<close>, \<open>main.js\<close> line 571. The delay is an
  unsigned number of milliseconds. JavaScript's \<open>200 / 0\<close> is \<open>Infinity\<close>, which the inner
  \<open>Math.min\<close> cuts to 20, whereas \<^term>\<open>(200::nat) div 0\<close> is 0 in HOL: the case is written out.
\<close>

definition batchSize :: "nat \<Rightarrow> nat" where
  "batchSize delay = (if delay = 0 then 20 else max 1 (min 20 (200 div delay)))"

text \<open>The formula the specification names, \<open>clamp(x, lo, hi)\<close>.\<close>

definition clamp :: "nat \<Rightarrow> nat \<Rightarrow> nat \<Rightarrow> nat" where
  "clamp x lo hi = (if x < lo then lo else if hi < x then hi else x)"


section \<open>Windows: PowerShell and SendKeys\<close>

text \<open>\<open>escapeSendKeys\<close>, \<open>main.js\<close> lines 551 to 565: a \<open>switch\<close> over the character.\<close>

definition escapeSendKeys :: "char \<Rightarrow> string" where
  "escapeSendKeys c =
     (if c = CHR ''{'' then ''{{''
      else if c = CHR ''}'' then ''}}''
      else if c = CHR ''+'' then ''{+}''
      else if c = CHR ''^'' then ''{^}''
      else if c = CHR ''%'' then ''{%}''
      else if c = CHR ''~'' then ''{~}''
      else if c = CHR ''('' then ''{(}''
      else if c = CHR '')'' then ''{)}''
      else if c = CHR ''['' then ''{[}''
      else if c = CHR '']'' then ''{]}''
      else [c])"

text \<open>
  The batched keystroke simulation, \<open>simulateKeystrokesWindows\<close>, lines 567 to 608. For one
  batch (lines 587 to 593): \<open>escapedBatch\<close> is the batch with every character escaped,
  \<open>safeEscapedBatch\<close> that string with every single quote doubled, and \<open>batch_cmd\<close> the
  command line \<open>cmd\<close> handed to \<open>exec\<close>. (The loop of the older Windows-only main file,
  lines 518 to 540, escapes the characters in the same way and does not double the
  quotes.)
\<close>

definition escapedBatch :: "string \<Rightarrow> string" where
  "escapedBatch batch = concat (map escapeSendKeys batch)"

definition safeEscapedBatch :: "string \<Rightarrow> string" where
  "safeEscapedBatch batch = replace_char SQUOTE [SQUOTE, SQUOTE] (escapedBatch batch)"

definition batch_cmd :: "string \<Rightarrow> string" where
  "batch_cmd batch =
     ''powershell -Command '' @ [DQUOTE]
       @ ''Add-Type -AssemblyName System.Windows.Forms; [System.Windows.Forms.SendKeys]::SendWait(''
       @ [SQUOTE] @ safeEscapedBatch batch @ [SQUOTE] @ '')'' @ [DQUOTE]"

text \<open>
  \<open>processNextBatch\<close>, lines 575 to 604, with the closure variables \<open>index\<close> and \<open>errors\<close> as
  arguments. \<open>exec\<close> runs the command and later calls back with an error or \<open>null\<close>:
  \<open>execError i\<close> is the message of the error for the batch at offset \<open>i\<close>, \<open>None\<close> for \<open>null\<close>.
  The pauses of \<open>setTimeout\<close> and the commands run are recorded in \<open>effects\<close>.

  \<open>batch_result\<close> is the object the promise is resolved with once the index has passed the
  end (lines 577 to 582); \<open>batch_step\<close> is one batch, lines 586 to 602: the command is run,
  its callback logs and records a failure, and the next round is scheduled.
\<close>

definition batch_result :: "string list \<Rightarrow> result" where
  "batch_result errs =
     (obj (length errs = 0))
       \<lparr>message := Some (if length errs = 0 then ''Keystrokes completed''
                          else ''Completed with '' @ show_nat (length errs) @ '' errors''),
        errors := (if length errs > 0 then Some errs else None)\<rparr>"

definition batch_step ::
    "(nat \<Rightarrow> string option) \<Rightarrow> string \<Rightarrow> nat \<Rightarrow> string \<Rightarrow> nat \<Rightarrow> string list \<Rightarrow> main_state
      \<Rightarrow> string list \<times> main_state" where
  "batch_step execError text delay requestId index errs st =
     (let batch = take (batchSize delay) (drop index text);
          st1 = st\<lparr>effects := effects st @ [Exec (batch_cmd batch) 5000]\<rparr>;
          (errs', st2) =
            (case execError index of
               Some msg \<Rightarrow>
                 (errs @ [''Position '' @ show_nat index @ '': '' @ msg],
                  logger_log ''warn'' ''paste''
                    (''['' @ requestId @ ''] Batch error at position '' @ show_nat index)
                    (Some [(''error'', msg)]) st1)
             | None \<Rightarrow> (errs, st1))
      in (errs', st2\<lparr>effects := effects st2 @ [Wait (delay * min (batchSize delay) 5)]\<rparr>))"

function processNextBatch ::
    "(nat \<Rightarrow> string option) \<Rightarrow> string \<Rightarrow> nat \<Rightarrow> string \<Rightarrow> nat \<Rightarrow> string list \<Rightarrow> main_state
      \<Rightarrow> result \<times> main_state" where
  "processNextBatch execError text delay requestId index errs st =
     (if index \<ge> length text then (batch_result errs, st)
      else
        (case batch_step execError text delay requestId index errs st of
           (errs', st') \<Rightarrow>
             processNextBatch execError text delay requestId (index + batchSize delay) errs' st'))"
  by pat_completeness auto
termination
  by (relation "measure (\<lambda>(execError, text, delay, requestId, index, errs, st). length text - index)")
     (auto simp: batchSize_def)

declare processNextBatch.simps [simp del]

definition simulateKeystrokesWindows ::
    "(nat \<Rightarrow> string option) \<Rightarrow> string \<Rightarrow> nat \<Rightarrow> string \<Rightarrow> main_state \<Rightarrow> result \<times> main_state" where
  "simulateKeystrokesWindows execError text delay requestId st =
     (let st1 = logger_log ''info'' ''paste''
                  (''['' @ requestId @ ''] Using Windows SendKeys simulation'') None st
      in processNextBatch execError text delay requestId 0 []
           (st1\<lparr>effects := effects st1 @ [Wait 200]\<rparr>))"

text \<open>The commands run, in order, among the effects.\<close>

fun exec_cmds :: "effect list \<Rightarrow> string list" where
  "exec_cmds [] = []"
| "exec_cmds (Exec c t # es) = c # exec_cmds es"
| "exec_cmds (e # es) = exec_cmds es"

text \<open>
  To state what a run does: the offsets at which a batch starts are the multiples of the
  batch size below the length of the text, and the entries of \<open>errors\<close> are those of the
  offsets whose command failed, in order.
\<close>

definition batch_offsets :: "nat \<Rightarrow> nat \<Rightarrow> nat list" where
  "batch_offsets n bs = filter (\<lambda>i. i mod bs = 0) [0..<n]"

definition position_errors :: "(nat \<Rightarrow> string option) \<Rightarrow> nat list \<Rightarrow> string list" where
  "position_errors execError offs =
     concat (map (\<lambda>i. case execError i of
                         None \<Rightarrow> []
                       | Some msg \<Rightarrow> [''Position '' @ show_nat i @ '': '' @ msg]) offs)"

text \<open>
  \<open>pasteViaShellWindows\<close>, lines 617 to 628: the text escaped in one piece, line feeds
  becoming \<open>{ENTER}\<close> and carriage returns being skipped, and passed to \<open>executeCommand\<close>.
\<close>

definition shell_escapedText :: "string \<Rightarrow> string" where
  "shell_escapedText text =
     replace_char SQUOTE [SQUOTE, SQUOTE]
       (concat (map (\<lambda>c. if c = LF then ''{ENTER}''
                          else if c = CR then []
                          else escapeSendKeys c) text))"

definition pasteViaShellWindows ::
    "string \<Rightarrow> string \<Rightarrow> spawn_outcome \<Rightarrow> main_state \<Rightarrow> result promise \<times> main_state" where
  "pasteViaShellWindows text requestId outcome st =
     (let command =
            ''Add-Type -AssemblyName System.Windows.Forms; [System.Windows.Forms.SendKeys]::SendWait(''
              @ [SQUOTE] @ shell_escapedText text @ [SQUOTE] @ '')''
      in case executeCommand ''powershell'' [''-Command'', command] 10000 requestId outcome st of
           (p, st') \<Rightarrow> (map_promise (\<lambda>r. r\<lparr>paste_method := Some ''powershell''\<rparr>) p, st'))"

text \<open>
  The \<open>paste-powershell\<close> handler of the older Windows-only main file, lines 579 to 603, is
  the one place where the text goes into a double-quoted PowerShell string. Lines 585 to
  592 are seven \<open>replace\<close> calls in a row, and line 594 builds the command.
\<close>

definition paste_powershell_escapedText :: "string \<Rightarrow> string" where
  "paste_powershell_escapedText text =
     replace_newlines
       (replace_char (CHR '']'') [BACKTICK, CHR '']'']
         (replace_char (CHR ''['') [BACKTICK, CHR ''['']
           (replace_char (CHR ''$'') [BACKTICK, CHR ''$'']
             (replace_char BACKTICK [BACKTICK, BACKTICK]
               (replace_char DQUOTE [DQUOTE, DQUOTE]
                 (replace_char BACKSLASH [BACKSLASH, BACKSLASH] text))))))"

definition paste_powershell_command :: "string \<Rightarrow> string" where
  "paste_powershell_command text =
     ''Add-Type -AssemblyName System.Windows.Forms; [System.Windows.Forms.SendKeys]::SendWait(''
       @ [DQUOTE] @ paste_powershell_escapedText text @ [DQUOTE] @ '')''"

text \<open>
  The rule as the specification words it, for comparison: each of backslash, double quote,
  backtick, \<open>$\<close>, \<open>[\<close> and \<open>]\<close> gets a backtick in front, and newline sequences become
  \<open>{ENTER}\<close>.
\<close>

definition spec_powershell_escape :: "string \<Rightarrow> string" where
  "spec_powershell_escape text =
     replace_newlines
       (concat (map (\<lambda>c. if c \<in> set [BACKSLASH, DQUOTE, BACKTICK, CHR ''$'', CHR ''['', CHR '']'']
                          then [BACKTICK, c] else [c]) text))"


section \<open>macOS: osascript\<close>

text \<open>
  \<open>main.js\<close> lines 678 to 700. \<open>pasteViaClipboardMac\<close> writes the clipboard, waits 100 ms
  and has \<open>osascript\<close> press Cmd+V; \<open>simulateKeystrokesMac\<close> hands a text of more than 200
  characters to it and types any other text with one \<open>osascript\<close> call, the text escaped by
  \<open>text.replace(/\\/g, '\\\\').replace(/"/g, '\\"')\<close> (\<open>mac_escaped\<close> is \<open>escaped\<close>,
  line 688). What \<open>spawn\<close> does and the events of the process are an input, as for
  \<open>executeCommand\<close>.
\<close>

definition paste_script :: string where
  "paste_script =
     ''tell application '' @ [DQUOTE] @ ''System Events'' @ [DQUOTE] @ '' to keystroke ''
       @ [DQUOTE] @ ''v'' @ [DQUOTE] @ '' using command down''"

definition pasteViaClipboardMac ::
    "string \<Rightarrow> string \<Rightarrow> spawn_outcome \<Rightarrow> main_state \<Rightarrow> result promise \<times> main_state" where
  "pasteViaClipboardMac text requestId outcome st =
     (case executeCommand ''osascript'' [''-e'', paste_script] 3000 requestId outcome
             (st\<lparr>effects := effects st @ [WriteClipboard text, Wait 100]\<rparr>) of
        (p, st') \<Rightarrow> (map_promise (\<lambda>r. r\<lparr>paste_method := Some ''clipboard''\<rparr>) p, st'))"

definition mac_escaped :: "string \<Rightarrow> string" where
  "mac_escaped text =
     replace_char DQUOTE [BACKSLASH, DQUOTE]
       (replace_char BACKSLASH [BACKSLASH, BACKSLASH] text)"

definition keystroke_script :: "string \<Rightarrow> string" where
  "keystroke_script text =
     ''tell application '' @ [DQUOTE] @ ''System Events'' @ [DQUOTE] @ '' to keystroke ''
       @ [DQUOTE] @ mac_escaped text @ [DQUOTE]"

definition simulateKeystrokesMac ::
    "string \<Rightarrow> nat \<Rightarrow> string \<Rightarrow> spawn_outcome \<Rightarrow> main_state \<Rightarrow> result promise \<times> main_state" where
  "simulateKeystrokesMac text delay requestId outcome st =
     (let st1 = logger_log ''info'' ''paste''
                  (''['' @ requestId @ ''] Using macOS osascript simulation'') None st
      in if length text > 200 then
           pasteViaClipboardMac text requestId outcome
             (logger_log ''info'' ''paste''
                (''['' @ requestId @ ''] Text too long for keystroke, using clipboard paste'')
                None st1)
         else
           (case executeCommand ''osascript'' [''-e'', keystroke_script text] 10000 requestId
                   outcome st1 of
              (p, st') \<Rightarrow>
                (map_promise (\<lambda>r. r\<lparr>paste_method := Some ''osascript-keystroke''\<rparr>) p, st')))"


section \<open>Shared lemmas\<close>

text \<open>What \<open>log\<close> leaves alone, and the replacements character by character.\<close>

lemma logger_log_fields [simp]:
  "mainWindow (logger_log lv cat msg d st) = mainWindow st"
  "clipboardMonitorInterval (logger_log lv cat msg d st) = clipboardMonitorInterval st"
  "lastClipboardText (logger_log lv cat msg d st) = lastClipboardText st"
  "intervals (logger_log lv cat msg d st) = intervals st"
  "nextHandle (logger_log lv cat msg d st) = nextHandle st"
  "effects (logger_log lv cat msg d st) = effects st"
  by (simp_all add: logger_log_def Let_def)

lemma replace_char_Nil [simp]: "replace_char c r [] = []"
  by (simp add: replace_char_def)

lemma replace_char_Cons [simp]:
  "replace_char c r (x # xs) = (if x = c then r else [x]) @ replace_char c r xs"
  by (simp add: replace_char_def)

lemma replace_char_append [simp]:
  "replace_char c r (xs @ ys) = replace_char c r xs @ replace_char c r ys"
  by (simp add: replace_char_def)

lemma replace_char_concat_map:
  "replace_char c r (concat (map f xs)) = concat (map (\<lambda>x. replace_char c r (f x)) xs)"
  by (induction xs) simp_all

lemma squote_escapeSendKeys:
  "replace_char SQUOTE r (escapeSendKeys c) = (if c = SQUOTE then r else escapeSendKeys c)"
  by (simp add: escapeSendKeys_def)

lemma safeEscapedBatch_map:
  "safeEscapedBatch batch =
     concat (map (\<lambda>c. if c = SQUOTE then [SQUOTE, SQUOTE] else escapeSendKeys c) batch)"
  by (simp add: safeEscapedBatch_def escapedBatch_def replace_char_concat_map squote_escapeSendKeys)

lemma exec_cmds_append [simp]: "exec_cmds (xs @ ys) = exec_cmds xs @ exec_cmds ys"
  by (induction xs rule: exec_cmds.induct) simp_all

lemma effects_on:
  "effects (snd (executeCommand_on t rid (v, st) e)) = effects st"
  by (cases e) simp_all

lemma effects_fold:
  "effects (snd (foldl (executeCommand_on t rid) vs evs)) = effects (snd vs)"
proof (induction evs arbitrary: vs)
  case Nil
  then show ?case by simp
next
  case (Cons e evs)
  obtain v st where vs: "vs = (v, st)" by (cases vs)
  show ?case by (simp add: Cons.IH vs effects_on)
qed

lemma effects_executeCommand:
  "effects (snd (executeCommand c a t rid outcome st)) = effects st @ [Spawn c a]"
proof (cases outcome)
  case (Spawned evs)
  then have "snd (executeCommand c a t rid outcome st) = snd (executeCommand_run c a t rid evs st)"
    by (simp add: executeCommand_def split: prod.splits)
  then show ?thesis
    by (simp add: executeCommand_run_def effects_fold executeCommand_begin_def Let_def)
next
  case (SpawnThrows m)
  then show ?thesis
    by (simp add: executeCommand_def executeCommand_begin_def Let_def)
qed


section \<open>Properties of the logger\<close>

lemma logs_logger_log:
  "logs (logger_log lv cat msg d st) =
     (if length (logs st) < maxLogs then LogEntry lv cat msg d # logs st
      else butlast (LogEntry lv cat msg d # logs st))"
  by (simp add: logger_log_def Let_def)

lemma logs_logger_log_take:
  assumes "length (logs st) \<le> maxLogs"
  shows "logs (logger_log lv cat msg d st) = take maxLogs (LogEntry lv cat msg d # logs st)"
proof (cases "length (logs st) < maxLogs")
  case True
  then show ?thesis by (simp add: logs_logger_log)
next
  case False
  with assms have len: "length (logs st) = maxLogs" by simp
  have "butlast (LogEntry lv cat msg d # logs st) = take maxLogs (LogEntry lv cat msg d # logs st)"
    by (simp add: butlast_conv_take len)
  with False show ?thesis by (simp add: logs_logger_log)
qed

lemma logs_log_all:
  "length (logs st) \<le> maxLogs \<Longrightarrow>
   logs (log_all cs st) = take maxLogs (rev (map entry_of cs) @ logs st)"
proof (induction cs arbitrary: st)
  case Nil
  then show ?case by simp
next
  case (Cons c cs)
  obtain lv cat msg d where c: "c = (lv, cat, msg, d)" by (cases c) auto
  let ?st = "logger_log lv cat msg d st"
  have step: "logs ?st = take maxLogs (entry_of c # logs st)"
    using Cons.prems by (simp add: logs_logger_log_take c entry_of_def)
  then have "length (logs ?st) \<le> maxLogs" by simp
  then have "logs (log_all cs ?st) = take maxLogs (rev (map entry_of cs) @ logs ?st)"
    by (rule Cons.IH)
  also have "\<dots> = take maxLogs (rev (map entry_of cs) @ entry_of c # logs st)"
    by (simp add: step min_def)
  finally show ?case by (simp add: c)
qed

text \<open>
  Claim C9. Starting from the empty array of the constructor, after any sequence of \<open>log\<close>
  calls \<open>getLogs\<close> returns the entries newest first, cut to the 200 newest: the array never
  holds more than 200 entries. After 250 calls it holds exactly the entries of the last 200
  calls, newest first, and (the entries being told apart) none of the first 50.
  Each single call puts its entry at the front and, once the array is over 200, drops the
  last, oldest one.
\<close>

theorem log_ring_buffer:
  assumes "logs st = []"
  shows "getLogs (log_all cs st) = take 200 (rev (map entry_of cs))
       \<and> length (getLogs (log_all cs st)) \<le> 200
       \<and> (length (logs st') \<le> 200 \<longrightarrow>
            getLogs (logger_log lv cat msg d st') = take 200 (LogEntry lv cat msg d # logs st'))
       \<and> (length cs = 250 \<longrightarrow>
            getLogs (log_all cs st) = rev (drop 50 (map entry_of cs))
          \<and> length (getLogs (log_all cs st)) = 200
          \<and> (distinct (map entry_of cs) \<longrightarrow>
               set (take 50 (map entry_of cs)) \<inter> set (getLogs (log_all cs st)) = {}))"
proof -
  let ?es = "map entry_of cs"
  have all: "getLogs (log_all cs st) = take 200 (rev ?es)"
    using logs_log_all [of st cs] assms by (simp add: getLogs_def maxLogs_def)
  have one: "length (logs st') \<le> 200 \<longrightarrow>
      getLogs (logger_log lv cat msg d st') = take 200 (LogEntry lv cat msg d # logs st')"
    using logs_logger_log_take [of st' lv cat msg d] by (simp add: getLogs_def maxLogs_def)
  have full: "getLogs (log_all cs st) = rev (drop 50 ?es)" if len: "length cs = 250"
  proof -
    have "take 200 (rev ?es) = rev (drop (length ?es - 200) ?es)"
      by (simp add: take_rev)
    with all len show ?thesis by simp
  qed
  have absent: "set (take 50 ?es) \<inter> set (getLogs (log_all cs st)) = {}"
    if len: "length cs = 250" and dist: "distinct ?es"
  proof -
    have "distinct (take 50 ?es @ drop 50 ?es)" using dist by simp
    then have "set (take 50 ?es) \<inter> set (drop 50 ?es) = {}"
      unfolding distinct_append by blast
    then show ?thesis by (simp add: full [OF len])
  qed
  show ?thesis using all one full absent by simp
qed

theorem log_ring_buffer_witness:
  "getLogs (log_all (map (\<lambda>n. (''info'', ''test'', show_nat n, None)) [0..<250]) initial_state)
   = rev (map (\<lambda>n. LogEntry ''info'' ''test'' (show_nat n) None) [50..<250])"
proof -
  let ?cs = "map (\<lambda>n. (''info'', ''test'', show_nat n, None :: log_data)) [0..<250]"
  have "logs initial_state = []" by (simp add: initial_state_def)
  from log_ring_buffer [OF this, of ?cs]
  have "length ?cs = 250 \<longrightarrow>
          getLogs (log_all ?cs initial_state) = rev (drop 50 (map entry_of ?cs))"
    by blast
  then have "getLogs (log_all ?cs initial_state) = rev (drop 50 (map entry_of ?cs))" by simp
  also have "drop 50 (map entry_of ?cs) = map (\<lambda>n. LogEntry ''info'' ''test'' (show_nat n) None) (drop 50 [0..<250])"
    by (simp add: drop_map entry_of_def comp_def)
  also have "drop 50 [0..<250::nat] = [50..<250]" by simp
  finally show ?thesis .
qed


section \<open>Properties of the batch size\<close>

text \<open>
  Claim C3. For every positive delay the batch size is \<open>clamp(floor(200 / delay), 1, 20)\<close>
  and lies between 1 and 20; the delays 1, 10, 50, 200 and 1000 give 20, 20, 4, 1 and 1.
\<close>

theorem batchSize_clamp:
  "(0 < delay \<longrightarrow>
      batchSize delay = clamp (200 div delay) 1 20 \<and> 1 \<le> batchSize delay \<and> batchSize delay \<le> 20)
   \<and> batchSize 1 = 20 \<and> batchSize 10 = 20 \<and> batchSize 50 = 4
   \<and> batchSize 200 = 1 \<and> batchSize 1000 = 1"
  by (simp add: batchSize_def clamp_def)

theorem batchSize_clamp_witness:
  "(0::nat) < 7 \<and> batchSize 7 = clamp (200 div 7) 1 20 \<and> batchSize 7 = 20 \<and> 1 \<le> batchSize 7"
proof -
  have pos: "(0::nat) < 7" by simp
  from batchSize_clamp [of 7] pos
  have "batchSize 7 = clamp (200 div 7) 1 20 \<and> 1 \<le> batchSize 7 \<and> batchSize 7 \<le> 20" by blast
  moreover have "clamp (200 div 7) 1 20 = 20" by (simp add: clamp_def)
  ultimately show ?thesis using pos by simp
qed

section \<open>Properties of the clipboard monitor\<close>


lemma clipboard_changes_append [simp]:
  "clipboard_changes (xs @ ys) = clipboard_changes xs @ clipboard_changes ys"
  by (induction xs rule: clipboard_changes.induct) simp_all

lemma sent_logger_log_changes [simp]:
  "clipboard_changes (sent (logger_log lv cat msg d st)) = clipboard_changes (sent st)"
  by (simp add: logger_log_def Let_def)

lemma stop_fields [simp]:
  "intervals (stopClipboardMonitoring st) =
     (case clipboardMonitorInterval st of None \<Rightarrow> intervals st | Some t \<Rightarrow> removeAll t (intervals st))"
  "clipboardMonitorInterval (stopClipboardMonitoring st) = None"
  "mainWindow (stopClipboardMonitoring st) = mainWindow st"
  "nextHandle (stopClipboardMonitoring st) = nextHandle st"
  "lastClipboardText (stopClipboardMonitoring st) = lastClipboardText st"
  "clipboard_changes (sent (stopClipboardMonitoring st)) = clipboard_changes (sent st)"
  by (simp_all add: stopClipboardMonitoring_def split: option.splits)

lemma start_fields [simp]:
  "intervals (startClipboardMonitoring p r st) =
     intervals (stopClipboardMonitoring st) @ [nextHandle st]"
  "clipboardMonitorInterval (startClipboardMonitoring p r st) = Some (nextHandle st)"
  "mainWindow (startClipboardMonitoring p r st) = mainWindow st"
  "nextHandle (startClipboardMonitoring p r st) = Suc (nextHandle st)"
  "lastClipboardText (startClipboardMonitoring p r st) = (case r of Inr text \<Rightarrow> text | Inl msg \<Rightarrow> [])"
  "clipboard_changes (sent (startClipboardMonitoring p r st)) = clipboard_changes (sent st)"
  by (simp_all add: startClipboardMonitoring_def Let_def split: sum.splits option.splits)

lemma tick_fields [simp]:
  "intervals (clipboardTick r st) = intervals st"
  "clipboardMonitorInterval (clipboardTick r st) = clipboardMonitorInterval st"
  "mainWindow (clipboardTick r st) = mainWindow st"
  "nextHandle (clipboardTick r st) = nextHandle st"
  by (simp_all add: clipboardTick_def Let_def split: sum.splits)

lemma log_all_fields [simp]:
  "intervals (log_all cs st) = intervals st"
  "clipboardMonitorInterval (log_all cs st) = clipboardMonitorInterval st"
  "mainWindow (log_all cs st) = mainWindow st"
  "nextHandle (log_all cs st) = nextHandle st"
  by (induction cs arbitrary: st; simp split: prod.splits)+

lemma monitor_inv_step: "monitor_inv st \<Longrightarrow> monitor_inv (app_step st e)"
  by (cases e) (auto simp: monitor_inv_def split: option.splits)

lemma monitor_inv_run: "monitor_inv (app_run evs)"
proof -
  have "monitor_inv st \<Longrightarrow> monitor_inv (foldl app_step st evs)" for st
    by (induction evs arbitrary: st) (simp_all add: monitor_inv_step)
  moreover have "monitor_inv initial_state" by (simp add: monitor_inv_def initial_state_def)
  ultimately show ?thesis by (simp add: app_run_def)
qed

lemma running_has_window:
  "t \<in> set (intervals (app_run evs)) \<Longrightarrow> mainWindow (app_run evs)"
  using monitor_inv_run [of evs] by (auto simp: monitor_inv_def split: option.splits)

lemma tick_changes:
  "clipboard_changes (sent (clipboardTick r st)) =
     clipboard_changes (sent st) @
       (case r of
          Inr text \<Rightarrow> if text \<noteq> lastClipboardText st \<and> text \<noteq> [] \<and> mainWindow st then [text] else []
        | Inl msg \<Rightarrow> [])"
  by (simp add: clipboardTick_def Let_def split: sum.splits)

lemma tick_snapshot:
  "lastClipboardText (clipboardTick r st) =
     (case r of
        Inr text \<Rightarrow> if text \<noteq> lastClipboardText st \<and> text \<noteq> [] then text else lastClipboardText st
      | Inl msg \<Rightarrow> lastClipboardText st)"
  by (simp add: clipboardTick_def Let_def split: sum.splits)

text \<open>
  Claim C4. In every state the process reaches while the monitor's timer is alive, a tick
  sends a \<open>clipboard-changed\<close> message, carrying the text read, exactly when the read
  returns a text that differs from the snapshot and is not empty, and the snapshot becomes
  that text in exactly that case. A read that throws only adds a debug entry to the log,
  and a read of the empty string changes nothing. With a snapshot other than \<open>a\<close>, the
  reads \<open>""\<close>, \<open>a\<close>, \<open>a\<close>, \<open>b\<close>, \<open>""\<close> at five ticks send the messages for \<open>a\<close> and
  then \<open>b\<close> and no other.
\<close>

theorem clipboard_monitor_events:
  assumes "st = app_run evs" and "t \<in> set (intervals st)"
  shows "clipboard_changes (sent (app_step st (IntervalFires t r))) =
           clipboard_changes (sent st) @
             (case r of
                Inr text \<Rightarrow> if text \<noteq> lastClipboardText st \<and> text \<noteq> [] then [text] else []
              | Inl msg \<Rightarrow> [])
       \<and> lastClipboardText (app_step st (IntervalFires t r)) =
             (case r of
                Inr text \<Rightarrow> if text \<noteq> lastClipboardText st \<and> text \<noteq> [] then text
                            else lastClipboardText st
              | Inl msg \<Rightarrow> lastClipboardText st)
       \<and> app_step st (IntervalFires t (Inl msg)) =
             logger_log ''debug'' ''clipboard'' ''Clipboard read error (normal)''
               (Some [(''error'', msg)]) st
       \<and> app_step st (IntervalFires t (Inr [])) = st
       \<and> (lastClipboardText st \<noteq> ''a'' \<longrightarrow>
            clipboard_changes (sent (foldl app_step st
                (map (IntervalFires t) [Inr [], Inr ''a'', Inr ''a'', Inr ''b'', Inr []])))
              = clipboard_changes (sent st) @ [''a'', ''b''])"
proof -
  have win: "mainWindow st" using assms running_has_window by blast
  have live: "t \<in> set (intervals st)" by fact
  have c1: "clipboard_changes (sent (app_step st (IntervalFires t r))) =
           clipboard_changes (sent st) @
             (case r of
                Inr text \<Rightarrow> if text \<noteq> lastClipboardText st \<and> text \<noteq> [] then [text] else []
              | Inl msg \<Rightarrow> [])"
    using win live by (simp add: tick_changes split: sum.splits)
  have c2: "lastClipboardText (app_step st (IntervalFires t r)) =
             (case r of
                Inr text \<Rightarrow> if text \<noteq> lastClipboardText st \<and> text \<noteq> [] then text
                            else lastClipboardText st
              | Inl msg \<Rightarrow> lastClipboardText st)"
    using live by (simp add: tick_snapshot)
  have c3: "app_step st (IntervalFires t (Inl msg)) =
             logger_log ''debug'' ''clipboard'' ''Clipboard read error (normal)''
               (Some [(''error'', msg)]) st"
    using live by (simp add: clipboardTick_def)
  have c4: "app_step st (IntervalFires t (Inr [])) = st"
    using live by (simp add: clipboardTick_def)
  have c5: "clipboard_changes (sent (foldl app_step st
                (map (IntervalFires t) [Inr [], Inr ''a'', Inr ''a'', Inr ''b'', Inr []])))
              = clipboard_changes (sent st) @ [''a'', ''b'']"
    if "lastClipboardText st \<noteq> ''a''"
    using win live that by (simp add: tick_changes tick_snapshot)
  show ?thesis using c1 c2 c3 c4 c5 by blast
qed

theorem clipboard_monitor_events_witness:
  "clipboard_changes (sent (app_run
      ([WindowCreated, DomReady ''Linux'' (Inr [])] @
        map (IntervalFires 0) [Inr [], Inr ''a'', Inr ''a'', Inr ''b'', Inr []])))
     = [''a'', ''b'']"
proof -
  let ?evs = "[WindowCreated, DomReady ''Linux'' (Inr [])]"
  let ?ticks = "map (IntervalFires 0) [Inr [], Inr ''a'', Inr ''a'', Inr ''b'', Inr []]"
  have st: "app_run ?evs = app_run ?evs" by simp
  have live: "0 \<in> set (intervals (app_run ?evs))"
    by (simp add: app_run_def initial_state_def)
  have snap: "lastClipboardText (app_run ?evs) \<noteq> ''a''"
    by (simp add: app_run_def initial_state_def)
  have none: "clipboard_changes (sent (app_run ?evs)) = []"
    by (simp add: app_run_def initial_state_def)
  from clipboard_monitor_events [OF st live] snap
  have "clipboard_changes (sent (foldl app_step (app_run ?evs) ?ticks))
          = clipboard_changes (sent (app_run ?evs)) @ [''a'', ''b'']"
    by blast
  moreover have "app_run (?evs @ ?ticks) = foldl app_step (app_run ?evs) ?ticks"
    by (simp only: app_run_def foldl_append)
  ultimately show ?thesis by (simp only: none append_Nil)
qed

text \<open>
  Claim C10. In every state the process reaches at most one interval timer is alive, the
  one \<open>clipboardMonitorInterval\<close> holds. \<open>startClipboardMonitoring\<close> called there leaves
  exactly one timer alive, a new one, the timer that was alive before being cancelled;
  \<open>stopClipboardMonitoring\<close> leaves none, and where the variable holds no timer it changes
  nothing at all.
\<close>

theorem single_clipboard_timer:
  "length (intervals (app_run evs)) \<le> 1
   \<and> intervals (app_run evs) =
       (case clipboardMonitorInterval (app_run evs) of None \<Rightarrow> [] | Some t \<Rightarrow> [t])
   \<and> intervals (startClipboardMonitoring p r (app_run evs)) = [nextHandle (app_run evs)]
   \<and> clipboardMonitorInterval (startClipboardMonitoring p r (app_run evs))
       = Some (nextHandle (app_run evs))
   \<and> nextHandle (app_run evs) \<notin> set (intervals (app_run evs))
   \<and> intervals (stopClipboardMonitoring (app_run evs)) = []
   \<and> (clipboardMonitorInterval st = None \<longrightarrow> stopClipboardMonitoring st = st)"
proof -
  have inv: "monitor_inv (app_run evs)" by (rule monitor_inv_run)
  have a: "intervals (app_run evs) =
       (case clipboardMonitorInterval (app_run evs) of None \<Rightarrow> [] | Some t \<Rightarrow> [t])"
    using inv by (simp add: monitor_inv_def split: option.splits)
  then have b: "length (intervals (app_run evs)) \<le> 1"
    by (simp split: option.splits)
  have c: "intervals (stopClipboardMonitoring (app_run evs)) = []"
    using inv by (simp add: monitor_inv_def split: option.splits)
  have d: "intervals (startClipboardMonitoring p r (app_run evs)) = [nextHandle (app_run evs)]"
    using c by simp
  have e: "nextHandle (app_run evs) \<notin> set (intervals (app_run evs))"
    using inv by (auto simp: monitor_inv_def split: option.splits)
  have f: "clipboardMonitorInterval st = None \<longrightarrow> stopClipboardMonitoring st = st"
    by (simp add: stopClipboardMonitoring_def)
  show ?thesis using a b c d e f by simp
qed

theorem single_clipboard_timer_witness:
  "clipboardMonitorInterval initial_state = None
   \<and> stopClipboardMonitoring initial_state = initial_state
   \<and> intervals (app_run [WindowCreated, DomReady ''Linux'' (Inr ''x'')]) = [0]
   \<and> intervals (app_run [WindowCreated, DomReady ''Linux'' (Inr ''x''), DomReady ''Linux'' (Inr ''y'')]) = [1]"
proof -
  let ?evs = "[WindowCreated, DomReady ''Linux'' (Inr ''x'')]"
  have none: "clipboardMonitorInterval initial_state = None"
    by (simp add: initial_state_def)
  have win: "mainWindow (app_run ?evs)" by (simp add: app_run_def)
  have nh: "nextHandle (app_run ?evs) = 1" by (simp add: app_run_def initial_state_def)
  have first: "intervals (app_run ?evs) = [0]" by (simp add: app_run_def initial_state_def)
  from single_clipboard_timer [of ?evs "''Linux''" "Inr ''y''" initial_state] none
  have stop: "stopClipboardMonitoring initial_state = initial_state"
    and start: "intervals (startClipboardMonitoring ''Linux'' (Inr ''y'') (app_run ?evs))
                  = [nextHandle (app_run ?evs)]"
    by blast+
  have "app_run (?evs @ [DomReady ''Linux'' (Inr ''y'')])
          = startClipboardMonitoring ''Linux'' (Inr ''y'') (app_run ?evs)"
    using win by (simp add: app_run_def)
  with start nh have "intervals (app_run (?evs @ [DomReady ''Linux'' (Inr ''y'')])) = [1]"
    by simp
  with none stop first show ?thesis by simp
qed

section \<open>Properties of executeCommand\<close>




lemma run_split:
  "executeCommand_run c a t rid (pre @ e # post) st =
     foldl (executeCommand_on t rid)
       (executeCommand_on t rid (foldl (executeCommand_on t rid) (executeCommand_begin c a t rid st) pre) e)
       post"
  by (simp add: executeCommand_run_def)












section \<open>Properties of the SendKeys escaping\<close>

text \<open>
  The table of \<open>escapeSendKeys\<close>, character by character; with \<open>safeEscapedBatch_map\<close> it
  gives the literal of a batch. What SendKeys makes of that literal is a matter of its
  parser, which is not part of this program.
\<close>

lemma escapeSendKeys_table:
  "escapeSendKeys (CHR ''{'') = ''{{'' \<and> escapeSendKeys (CHR ''}'') = ''}}''
   \<and> escapeSendKeys (CHR ''+'') = ''{+}'' \<and> escapeSendKeys (CHR ''^'') = ''{^}''
   \<and> escapeSendKeys (CHR ''%'') = ''{%}'' \<and> escapeSendKeys (CHR ''~'') = ''{~}''
   \<and> escapeSendKeys (CHR ''('') = ''{(}'' \<and> escapeSendKeys (CHR '')'') = ''{)}''
   \<and> escapeSendKeys (CHR ''['') = ''{[}'' \<and> escapeSendKeys (CHR '']'') = ''{]}''
   \<and> (c \<notin> set ''{}+^%~()[]'' \<longrightarrow> escapeSendKeys c = [c])"
  by (simp add: escapeSendKeys_def)


section \<open>Newlines on the two SendKeys paths\<close>

lemma shell_escapedText_map:
  "shell_escapedText s =
     concat (map (\<lambda>c. if c = LF then ''{ENTER}'' else if c = CR then []
                        else if c = SQUOTE then [SQUOTE, SQUOTE] else escapeSendKeys c) s)"
proof -
  have "replace_char SQUOTE [SQUOTE, SQUOTE]
          (if c = LF then ''{ENTER}'' else if c = CR then [] else escapeSendKeys c) =
        (if c = LF then ''{ENTER}'' else if c = CR then []
         else if c = SQUOTE then [SQUOTE, SQUOTE] else escapeSendKeys c)" for c
    by (simp add: squote_escapeSendKeys)
  then show ?thesis
    by (simp add: shell_escapedText_def replace_char_concat_map)
qed

lemma escapeSendKeys_no_newline:
  "c \<noteq> LF \<Longrightarrow> LF \<notin> set (escapeSendKeys c)"
  "c \<noteq> CR \<Longrightarrow> CR \<notin> set (escapeSendKeys c)"
  by (simp_all add: escapeSendKeys_def)

lemma shell_escapedText_no_newline:
  "LF \<notin> set (shell_escapedText s) \<and> CR \<notin> set (shell_escapedText s)"
  by (induction s) (simp_all add: shell_escapedText_map escapeSendKeys_no_newline)

lemma escapeSendKeys_keeps_newline:
  "filter (\<lambda>c. c = LF \<or> c = CR) (escapeSendKeys c) = (if c = LF \<or> c = CR then [c] else [])"
  by (simp add: escapeSendKeys_def)

lemma safeEscapedBatch_keeps_newlines:
  "filter (\<lambda>c. c = LF \<or> c = CR) (safeEscapedBatch batch) = filter (\<lambda>c. c = LF \<or> c = CR) batch"
  by (induction batch) (simp_all add: safeEscapedBatch_map escapeSendKeys_keeps_newline)

text \<open>
  Claim C6, at the text \<open>a\<close>, carriage return, line feed, \<open>b\<close>: the batched keystroke
  simulation sends the carriage return and the line feed as they are, in one batch, where
  the shell-paste path sends \<open>a{ENTER}b\<close>. (In general the shell-paste path leaves no line
  feed and no carriage return, \<open>shell_escapedText_no_newline\<close>, and the batched path keeps
  every one, \<open>safeEscapedBatch_keeps_newlines\<close>.)
\<close>

theorem batched_path_keeps_newlines:
  "safeEscapedBatch [CHR ''a'', CR, LF, CHR ''b''] = [CHR ''a'', CR, LF, CHR ''b'']
   \<and> exec_cmds (effects (snd (simulateKeystrokesWindows (\<lambda>i. None)
        [CHR ''a'', CR, LF, CHR ''b''] 50 ''r1'' initial_state)))
       = [batch_cmd [CHR ''a'', CR, LF, CHR ''b'']]
   \<and> shell_escapedText [CHR ''a'', CR, LF, CHR ''b''] = ''a{ENTER}b''"
  by (simp add: safeEscapedBatch_map shell_escapedText_map escapeSendKeys_def
        simulateKeystrokesWindows_def processNextBatch.simps batch_step_def Let_def
        batchSize_def initial_state_def)


section \<open>Properties of the double-quoted PowerShell escaping\<close>

lemma paste_powershell_per_char:
  "replace_char (CHR '']'') [BACKTICK, CHR '']'']
     (replace_char (CHR ''['') [BACKTICK, CHR ''['']
       (replace_char (CHR ''$'') [BACKTICK, CHR ''$'']
         (replace_char BACKTICK [BACKTICK, BACKTICK]
           (replace_char DQUOTE [DQUOTE, DQUOTE]
             (replace_char BACKSLASH [BACKSLASH, BACKSLASH] s))))) =
   concat (map (\<lambda>c. if c = BACKSLASH then [BACKSLASH, BACKSLASH]
                      else if c = DQUOTE then [DQUOTE, DQUOTE]
                      else if c = BACKTICK \<or> c = CHR ''$'' \<or> c = CHR ''['' \<or> c = CHR '']''
                      then [BACKTICK, c] else [c]) s)"
  by (induction s) simp_all

text \<open>
  Claim C7, as the code has it. In the \<open>paste-powershell\<close> handler of the older Windows-only
  main file every backslash and every double quote is doubled, every backtick, \<open>$\<close>, \<open>[\<close>
  and \<open>]\<close> gets a backtick in front, every other character stays, and then every line
  feed, with a carriage return right before it, becomes \<open>{ENTER}\<close>; a carriage return
  alone stays.
\<close>

theorem paste_powershell_escaping:
  "paste_powershell_escapedText text =
     replace_newlines
       (concat (map (\<lambda>c. if c = BACKSLASH then [BACKSLASH, BACKSLASH]
                          else if c = DQUOTE then [DQUOTE, DQUOTE]
                          else if c = BACKTICK \<or> c = CHR ''$'' \<or> c = CHR ''['' \<or> c = CHR '']''
                          then [BACKTICK, c] else [c]) text))
   \<and> paste_powershell_escapedText [CR, LF] = ''{ENTER}''
   \<and> paste_powershell_escapedText [LF] = ''{ENTER}''
   \<and> paste_powershell_escapedText [CR] = [CR]"
  by (simp add: paste_powershell_escapedText_def paste_powershell_per_char)

text \<open>
  Claim C7 as stated fails for the backslash and for the double quote: the code doubles
  them, where the claim puts a backtick in front.
\<close>

theorem paste_powershell_escaping_counterexample:
  "paste_powershell_escapedText [BACKSLASH] = [BACKSLASH, BACKSLASH]
   \<and> spec_powershell_escape [BACKSLASH] = [BACKTICK, BACKSLASH]
   \<and> paste_powershell_escapedText [DQUOTE] = [DQUOTE, DQUOTE]
   \<and> spec_powershell_escape [DQUOTE] = [BACKTICK, DQUOTE]
   \<and> paste_powershell_escapedText [BACKSLASH] \<noteq> spec_powershell_escape [BACKSLASH]
   \<and> paste_powershell_escapedText [DQUOTE] \<noteq> spec_powershell_escape [DQUOTE]"
  by (simp add: paste_powershell_escapedText_def spec_powershell_escape_def)

section \<open>Properties of the batched keystroke simulation\<close>


lemma position_errors_Nil [simp]: "position_errors execError [] = []"
  by (simp add: position_errors_def)





lemma batch_offsets_from_0:
  "filter (\<lambda>i. (i - 0) mod bs = 0) [0..<n] = batch_offsets n bs"
  by (simp add: batch_offsets_def)






section \<open>Properties of the macOS keystroke simulation\<close>

lemma mac_escaped_map:
  "mac_escaped s =
     concat (map (\<lambda>c. if c = BACKSLASH then [BACKSLASH, BACKSLASH]
                        else if c = DQUOTE then [BACKSLASH, DQUOTE] else [c]) s)"
  by (induction s) (simp_all add: mac_escaped_def)

lemma effects_pasteViaClipboardMac:
  "effects (snd (pasteViaClipboardMac s rid outcome st)) =
     effects st @ [WriteClipboard s, Wait 100, Spawn ''osascript'' [''-e'', paste_script]]"
proof -
  let ?st = "st\<lparr>effects := effects st @ [WriteClipboard s, Wait 100]\<rparr>"
  have "snd (pasteViaClipboardMac s rid outcome st) =
          snd (executeCommand ''osascript'' [''-e'', paste_script] 3000 rid outcome ?st)"
    by (simp add: pasteViaClipboardMac_def split: prod.splits)
  then show ?thesis by (simp add: effects_executeCommand)
qed

lemma mac_long:
  assumes "200 < length s"
  shows "simulateKeystrokesMac s delay rid outcome st =
           pasteViaClipboardMac s rid outcome
             (logger_log ''info'' ''paste''
                (''['' @ rid @ ''] Text too long for keystroke, using clipboard paste'') None
                (logger_log ''info'' ''paste''
                   (''['' @ rid @ ''] Using macOS osascript simulation'') None st))"
    and "effects (snd (simulateKeystrokesMac s delay rid outcome st)) =
           effects st @ [WriteClipboard s, Wait 100, Spawn ''osascript'' [''-e'', paste_script]]"
  using assms by (simp_all add: simulateKeystrokesMac_def Let_def effects_pasteViaClipboardMac)

lemma mac_short:
  assumes "length s \<le> 200"
  shows "effects (snd (simulateKeystrokesMac s delay rid outcome st)) =
           effects st @ [Spawn ''osascript'' [''-e'', keystroke_script s]]"
    and "fst (simulateKeystrokesMac s delay rid outcome st) =
           map_promise (\<lambda>r. r\<lparr>paste_method := Some ''osascript-keystroke''\<rparr>)
             (fst (executeCommand ''osascript'' [''-e'', keystroke_script s] 10000 rid outcome
                (logger_log ''info'' ''paste''
                   (''['' @ rid @ ''] Using macOS osascript simulation'') None st)))"
proof -
  let ?st1 = "logger_log ''info'' ''paste''
                (''['' @ rid @ ''] Using macOS osascript simulation'') None st"
  let ?ex = "executeCommand ''osascript'' [''-e'', keystroke_script s] 10000 rid outcome ?st1"
  have run: "simulateKeystrokesMac s delay rid outcome st =
               (map_promise (\<lambda>r. r\<lparr>paste_method := Some ''osascript-keystroke''\<rparr>) (fst ?ex),
                snd ?ex)"
    using assms by (simp add: simulateKeystrokesMac_def Let_def split: prod.splits)
  show "effects (snd (simulateKeystrokesMac s delay rid outcome st)) =
           effects st @ [Spawn ''osascript'' [''-e'', keystroke_script s]]"
    by (simp add: run effects_executeCommand)
  show "fst (simulateKeystrokesMac s delay rid outcome st) =
           map_promise (\<lambda>r. r\<lparr>paste_method := Some ''osascript-keystroke''\<rparr>) (fst ?ex)"
    by (simp add: run)
qed

text \<open>
  Claim C5, as the code has it. A text of more than 200 characters goes the clipboard way:
  the clipboard is written, 100 ms pass, and one \<open>osascript\<close> presses Cmd+V. A text of at
  most 200 characters is typed by one \<open>osascript\<close> call and nothing else, every backslash
  and every double quote of the text having a backslash put in front.
\<close>

theorem mac_keystroke_threshold:
  "(200 < length text \<longrightarrow>
      simulateKeystrokesMac text delay rid outcome st =
        pasteViaClipboardMac text rid outcome
          (logger_log ''info'' ''paste''
             (''['' @ rid @ ''] Text too long for keystroke, using clipboard paste'') None
             (logger_log ''info'' ''paste''
                (''['' @ rid @ ''] Using macOS osascript simulation'') None st))
      \<and> effects (snd (simulateKeystrokesMac text delay rid outcome st)) =
          effects st @ [WriteClipboard text, Wait 100, Spawn ''osascript'' [''-e'', paste_script]])
   \<and> (length text \<le> 200 \<longrightarrow>
      effects (snd (simulateKeystrokesMac text delay rid outcome st)) =
        effects st @ [Spawn ''osascript'' [''-e'', keystroke_script text]]
      \<and> fst (simulateKeystrokesMac text delay rid outcome st) =
          map_promise (\<lambda>r. r\<lparr>paste_method := Some ''osascript-keystroke''\<rparr>)
            (fst (executeCommand ''osascript'' [''-e'', keystroke_script text] 10000 rid outcome
               (logger_log ''info'' ''paste''
                  (''['' @ rid @ ''] Using macOS osascript simulation'') None st))))
   \<and> keystroke_script text =
       ''tell application '' @ [DQUOTE] @ ''System Events'' @ [DQUOTE] @ '' to keystroke ''
         @ [DQUOTE] @ mac_escaped text @ [DQUOTE]
   \<and> mac_escaped text =
       concat (map (\<lambda>c. if c = BACKSLASH then [BACKSLASH, BACKSLASH]
                          else if c = DQUOTE then [BACKSLASH, DQUOTE] else [c]) text)"
  using mac_long [of "text" delay rid outcome st] mac_short [of "text" delay rid outcome st]
    mac_escaped_map [of "text"]
  by (simp add: keystroke_script_def)

text \<open>
  Claim C5 as stated fails at a text of exactly 200 characters: it is typed by
  \<open>osascript\<close> and the clipboard is not written.
\<close>

theorem mac_keystroke_threshold_counterexample:
  "200 \<le> length (replicate 200 (CHR ''a''))
   \<and> effects (snd (simulateKeystrokesMac (replicate 200 (CHR ''a'')) 12 ''r1''
                     (Spawned [Close (Some 0)]) initial_state))
       = [Spawn ''osascript'' [''-e'', keystroke_script (replicate 200 (CHR ''a''))]]
   \<and> WriteClipboard (replicate 200 (CHR ''a''))
       \<notin> set (effects (snd (simulateKeystrokesMac (replicate 200 (CHR ''a'')) 12 ''r1''
                     (Spawned [Close (Some 0)]) initial_state)))"
proof -
  have len: "length (replicate 200 (CHR ''a'')) \<le> 200" by simp
  have "effects (snd (simulateKeystrokesMac (replicate 200 (CHR ''a'')) 12 ''r1''
                     (Spawned [Close (Some 0)]) initial_state))
       = effects initial_state @
           [Spawn ''osascript'' [''-e'', keystroke_script (replicate 200 (CHR ''a''))]]"
    by (rule mac_short(1) [OF len])
  then show ?thesis by (simp add: initial_state_def)
qed

theorem mac_keystroke_threshold_witness:
  "length ''say hi'' \<le> 200
   \<and> effects (snd (simulateKeystrokesMac ''say hi'' 12 ''r1'' (Spawned [Close (Some 0)]) initial_state))
       = [Spawn ''osascript'' [''-e'', keystroke_script ''say hi'']]
   \<and> 200 < length (replicate 201 (CHR ''a''))
   \<and> effects (snd (simulateKeystrokesMac (replicate 201 (CHR ''a'')) 12 ''r1''
                     (Spawned [Close (Some 0)]) initial_state))
       = [WriteClipboard (replicate 201 (CHR ''a'')), Wait 100,
          Spawn ''osascript'' [''-e'', paste_script]]"
proof -
  have short: "length ''say hi'' \<le> 200" by simp
  have long: "200 < length (replicate 201 (CHR ''a''))" by simp
  from mac_keystroke_threshold [of "''say hi''" 12 "''r1''" "Spawned [Close (Some 0)]" initial_state] short
  have a: "effects (snd (simulateKeystrokesMac ''say hi'' 12 ''r1'' (Spawned [Close (Some 0)]) initial_state))
       = effects initial_state @ [Spawn ''osascript'' [''-e'', keystroke_script ''say hi'']]"
    by blast
  from mac_keystroke_threshold
         [of "replicate 201 (CHR ''a'')" 12 "''r1''" "Spawned [Close (Some 0)]" initial_state] long
  have b: "effects (snd (simulateKeystrokesMac (replicate 201 (CHR ''a'')) 12 ''r1''
                     (Spawned [Close (Some 0)]) initial_state))
       = effects initial_state @ [WriteClipboard (replicate 201 (CHR ''a'')), Wait 100,
          Spawn ''osascript'' [''-e'', paste_script]]"
    by blast
  have e: "effects initial_state = []" by (simp add: initial_state_def)
  from short long a b show ?thesis unfolding e by simp
qed

end
